theory Spec2Isabelle
  imports
    Complex_Main
    "HOL-Library.Sublist"
    "HOL-Library.AList"
    "HOL-Library.Char_ord"
    "HOL-Library.List_Lexorder"
begin

section \<open>Strings\<close>

text \<open>
  Python strings are modelled as \<^typ>\<open>string\<close>. The three string operations of
  \<^verbatim>\<open>main.py\<close> are \<^verbatim>\<open>str.lower()\<close>, \<^verbatim>\<open>str.strip()\<close> and the substring test
  \<^verbatim>\<open>keyword in details\<close>. On the ASCII range \<^verbatim>\<open>lower\<close> maps \<^verbatim>\<open>A..Z\<close> to \<^verbatim>\<open>a..z\<close>,
  and \<^verbatim>\<open>strip\<close> removes the characters for which \<^verbatim>\<open>str.isspace\<close> holds
  (codes 9 to 13 and 28 to 32) from both ends. Characters outside ASCII are left alone
  by the model. The substring test is \<^const>\<open>sublist\<close>: \<open>sublist k d\<close> holds iff
  \<open>d = ps @ k @ ss\<close> for some \<open>ps\<close> and \<open>ss\<close>.
\<close>

definition lower_char :: "char \<Rightarrow> char" where
  "lower_char c =
     (let n = (of_char c :: nat) in if 65 \<le> n \<and> n \<le> 90 then char_of (n + 32) else c)"

definition lower :: "string \<Rightarrow> string" where
  "lower s = map lower_char s"

definition isspace :: "char \<Rightarrow> bool" where
  "isspace c = (let n = (of_char c :: nat) in (9 \<le> n \<and> n \<le> 13) \<or> (28 \<le> n \<and> n \<le> 32))"

definition strip :: "string \<Rightarrow> string" where
  "strip s = rev (dropWhile isspace (rev (dropWhile isspace s)))"

section \<open>Data model\<close>

text \<open>
  A row of the data frame. What a cell holds depends on the column and on the stage, so
  the types of the cells are parameters: \<open>'d\<close> for \<^verbatim>\<open>Date\<close>, \<open>'x\<close> for \<^verbatim>\<open>Details\<close>,
  \<open>'a\<close> for \<^verbatim>\<open>Amount\<close> and \<open>'t\<close> for the other columns. The categorizer needs the
  details to be text (\<open>'x\<close> is \<^typ>\<open>string\<close>). In a file every cell is text or empty
  (\<open>string option\<close>), and \<^verbatim>\<open>load_transactions\<close> turns the dates into timestamps and the
  amounts into floats. \<^verbatim>\<open>categorize_transactions\<close> adds the column \<^verbatim>\<open>Category\<close>.
\<close>

record ('d, 'x, 'a, 't) transaction =
  Date :: 'd
  Details :: 'x
  Amount :: 'a
  Currency :: 't
  Debit_Credit :: 't
  Status :: 't

record ('d, 'x, 'a, 't) categorized = "('d, 'x, 'a, 't) transaction" +
  Category :: string

text \<open>
  \<^verbatim>\<open>st.session_state.categories\<close>: a Python dict from category name to the list of its
  keywords. A dict iterates in insertion order, so it is an association list; its keys are
  distinct, which the theorems that depend on it assume.
\<close>

type_synonym ruleset = "(string \<times> string list) list"

text \<open>
  The state that \<^verbatim>\<open>add_keyword_to_category\<close> and \<^verbatim>\<open>save_categories\<close> work on: the dict in
  the session state and the contents of \<^verbatim>\<open>categories.json\<close> (\<open>None\<close> while the file does not
  exist).
\<close>

record session =
  categories :: ruleset
  category_file :: "ruleset option"

datatype py_error = KeyError

section \<open>The categorizer\<close>

text \<open>\<^verbatim>\<open>df["Category"] = value\<close>: creates the column, or overwrites it when it exists.\<close>

definition assign_Category ::
    "string \<Rightarrow> ('d, 'x, 'a, 't, 'm) transaction_scheme \<Rightarrow> ('d, 'x, 'a, 't) categorized" where
  "assign_Category v r =
     \<lparr>Date = Date r, Details = Details r, Amount = Amount r, Currency = Currency r,
      Debit_Credit = Debit_Credit r, Status = Status r, Category = v\<rparr>"

text \<open>
  The inner loop (lines 33 to 37): every row whose lower-cased, trimmed details contain one
  of the lowered keywords gets the category; \<^verbatim>\<open>iterrows\<close> visits each row once.
\<close>

definition categorize_rows ::
    "string \<Rightarrow> string list \<Rightarrow> ('d, string, 'a, 't) categorized list \<Rightarrow>
     ('d, string, 'a, 't) categorized list" where
  "categorize_rows category lowered_keywords df =
     map (\<lambda>row.
       let details = strip (lower (Details row))
       in if list_ex (\<lambda>keyword. sublist keyword details) lowered_keywords
          then row\<lparr>Category := category\<rparr> else row) df"

text \<open>The outer loop (lines 27 to 37) over the items of the dict, in insertion order;
  the dict is the parameter \<open>cats\<close>.\<close>

fun categorize_loop ::
    "ruleset \<Rightarrow> ('d, string, 'a, 't) categorized list \<Rightarrow> ('d, string, 'a, 't) categorized list" where
  "categorize_loop [] df = df"
| "categorize_loop ((category, keywords) # rest) df =
     (if category = ''Uncategorized'' \<or> keywords = [] then categorize_loop rest df
      else categorize_loop rest
             (categorize_rows category (map (\<lambda>keyword. strip (lower keyword)) keywords) df))"

definition categorize_transactions ::
    "ruleset \<Rightarrow> ('d, string, 'a, 't, 'm) transaction_scheme list \<Rightarrow>
     ('d, string, 'a, 't) categorized list" where
  "categorize_transactions cats df =
     categorize_loop cats (map (assign_Category ''Uncategorized'') df)"

text \<open>
  The matching rule in the words of the specification: a category is considered when it
  is not \<^verbatim>\<open>Uncategorized\<close> and has keywords, and it matches a details text when some
  keyword of it, lower-cased and trimmed, is a substring of the lower-cased, trimmed text.
\<close>

definition rule_matches :: "string \<times> string list \<Rightarrow> string \<Rightarrow> bool" where
  "rule_matches rule details \<longleftrightarrow>
     fst rule \<noteq> ''Uncategorized'' \<and> snd rule \<noteq> [] \<and>
     (\<exists>keyword \<in> set (snd rule). sublist (strip (lower keyword)) (strip (lower details)))"

text \<open>The category one row ends with, starting from \<open>current\<close>: the loop seen from one row.\<close>

fun resolve :: "ruleset \<Rightarrow> string \<Rightarrow> string \<Rightarrow> string" where
  "resolve [] details current = current"
| "resolve (rule # rest) details current =
     resolve rest details (if rule_matches rule details then fst rule else current)"

section \<open>Learning keywords\<close>

text \<open>\<^verbatim>\<open>save_categories\<close> (lines 20 to 22) writes the whole dict to the file.\<close>

definition save_categories :: "session \<Rightarrow> session" where
  "save_categories s = s\<lparr>category_file := Some (categories s)\<rparr>"

text \<open>
  \<^verbatim>\<open>add_keyword_to_category\<close> (lines 61 to 68). The condition
  \<^verbatim>\<open>keyword and keyword not in st.session_state.categories[category]\<close> is evaluated left to
  right: an empty keyword ends it before the dict is indexed, and indexing a missing key
  raises \<^verbatim>\<open>KeyError\<close>. The result is the exception or the returned flag, with the state
  the call leaves behind.
\<close>

definition add_keyword_to_category ::
    "string \<Rightarrow> string \<Rightarrow> session \<Rightarrow> (py_error + bool) \<times> session" where
  "add_keyword_to_category category keyword s =
     (let keyword = strip keyword in
      if keyword = [] then (Inr False, s)
      else case map_of (categories s) category of
        None \<Rightarrow> (Inl KeyError, s)
      | Some stored \<Rightarrow>
          if keyword \<notin> set stored
          then (Inr True,
                save_categories
                  (s\<lparr>categories := AList.update category (stored @ [keyword]) (categories s)\<rparr>))
          else (Inr False, s))"

section \<open>Loading a statement\<close>

text \<open>
  \<^verbatim>\<open>load_transactions\<close> (lines 41 to 59) is modelled on the table that \<^verbatim>\<open>pd.read_csv\<close>
  finds in the file: the rows in file order, each cell its text, or \<open>None\<close> for a cell that
  \<^verbatim>\<open>read_csv\<close> reads as missing (an empty cell), under the trimmed column names of line 44,
  and whether there is a column \<^verbatim>\<open>Status\<close>. The file is one that \<^verbatim>\<open>read_csv\<close> reads in one
  piece, with the columns the code indexes.

  \<^verbatim>\<open>read_csv\<close> decides the type of a column from all its cells. A column with at least one
  row whose cells are all empty or numbers becomes a numeric column; any other column holds
  objects, a \<^verbatim>\<open>str\<close> for a cell with text and \<^verbatim>\<open>NaN\<close> for an empty cell. Which texts are
  read as numbers is the parameter \<open>is_number\<close>.
\<close>

definition numeric_column :: "(string \<Rightarrow> bool) \<Rightarrow> string option list \<Rightarrow> bool" where
  "numeric_column is_number cells \<longleftrightarrow>
     cells \<noteq> [] \<and> list_all (\<lambda>cell. case cell of None \<Rightarrow> True | Some s \<Rightarrow> is_number s) cells"

text \<open>
  The \<^verbatim>\<open>str\<close> values of a column, \<open>None\<close> for a value that is not a \<^verbatim>\<open>str\<close>: every value of
  a numeric column, and the \<^verbatim>\<open>NaN\<close> of an empty cell.
\<close>

definition str_values :: "(string \<Rightarrow> bool) \<Rightarrow> string option list \<Rightarrow> string option list" where
  "str_values is_number cells =
     (if numeric_column is_number cells then map (\<lambda>cell. None) cells else cells)"

text \<open>\<^verbatim>\<open>.str.replace(",", "")\<close> on one \<^verbatim>\<open>str\<close>.\<close>

definition replace_commas :: "string \<Rightarrow> string" where
  "replace_commas s = filter (\<lambda>c. c \<noteq> CHR '','') s"

text \<open>
  A conversion of a column of objects (\<^verbatim>\<open>astype(float)\<close>, \<^verbatim>\<open>pd.to_datetime\<close>): a \<^verbatim>\<open>NaN\<close>
  stays missing (\<^verbatim>\<open>NaN\<close>, \<^verbatim>\<open>NaT\<close>) and raises nothing, a \<^verbatim>\<open>str\<close> is converted, and one
  \<^verbatim>\<open>str\<close> that does not convert raises for the whole column. The conversion of one \<^verbatim>\<open>str\<close>
  is a parameter, \<open>None\<close> where pandas raises. (pandas turns the numbers of a numeric date
  column back into text before it matches the format; the model gives the conversion the
  text of the cell.)
\<close>

definition convert_column ::
    "(string \<Rightarrow> 'v option) \<Rightarrow> string option list \<Rightarrow> 'v option list option" where
  "convert_column convert cells =
     those (map (\<lambda>cell. case cell of None \<Rightarrow> Some None
                         | Some s \<Rightarrow> map_option Some (convert s)) cells)"

text \<open>
  \<^verbatim>\<open>categorize_transactions\<close> (lines 24 to 39) once more, on a frame whose details need not
  be text: \<^verbatim>\<open>row["Details"].lower()\<close> at line 34 raises \<^verbatim>\<open>AttributeError\<close> for a value that
  is not a \<^verbatim>\<open>str\<close>. The loops are those of \<open>categorize_rows\<close> and \<open>categorize_loop\<close>, and on a
  frame whose details are all text the result is that of \<open>categorize_transactions\<close>
  (lemma \<open>categorize_transactions_checked_text\<close>).
\<close>

definition categorize_rows_checked ::
    "string \<Rightarrow> string list \<Rightarrow> ('d, string option, 'a, 't) categorized list \<Rightarrow>
     ('d, string option, 'a, 't) categorized list option" where
  "categorize_rows_checked category lowered_keywords df =
     those (map (\<lambda>row.
       case Details row of
         None \<Rightarrow> None
       | Some text \<Rightarrow>
           let details = strip (lower text)
           in Some (if list_ex (\<lambda>keyword. sublist keyword details) lowered_keywords
                    then row\<lparr>Category := category\<rparr> else row)) df)"

fun categorize_loop_checked ::
    "ruleset \<Rightarrow> ('d, string option, 'a, 't) categorized list \<Rightarrow>
     ('d, string option, 'a, 't) categorized list option" where
  "categorize_loop_checked [] df = Some df"
| "categorize_loop_checked ((category, keywords) # rest) df =
     (if category = ''Uncategorized'' \<or> keywords = [] then categorize_loop_checked rest df
      else case categorize_rows_checked category
                  (map (\<lambda>keyword. strip (lower keyword)) keywords) df of
             None \<Rightarrow> None
           | Some df \<Rightarrow> categorize_loop_checked rest df)"

definition categorize_transactions_checked ::
    "ruleset \<Rightarrow> ('d, string option, 'a, 't, 'm) transaction_scheme list \<Rightarrow>
     ('d, string option, 'a, 't) categorized list option" where
  "categorize_transactions_checked cats df =
     categorize_loop_checked cats (map (assign_Category ''Uncategorized'') df)"

text \<open>A row, and a categorized row, whose details are text, as the frame holds them.\<close>

definition text_row ::
    "('d, string, 'a, 't) transaction \<Rightarrow> ('d, string option, 'a, 't) transaction" where
  "text_row row =
     \<lparr>Date = Date row, Details = Some (Details row), Amount = Amount row,
      Currency = Currency row, Debit_Credit = Debit_Credit row, Status = Status row\<rparr>"

definition text_details ::
    "('d, string, 'a, 't) categorized \<Rightarrow> ('d, string option, 'a, 't) categorized" where
  "text_details row =
     \<lparr>Date = Date row, Details = Some (Details row), Amount = Amount row,
      Currency = Currency row, Debit_Credit = Debit_Credit row, Status = Status row,
      Category = Category row\<rparr>"

text \<open>
  The body of the \<^verbatim>\<open>try\<close>, statement by statement; every exception is caught at line 57 and
  the function returns \<^verbatim>\<open>None\<close>.
  \<^item> Line 47: the \<^verbatim>\<open>.str\<close> accessor raises \<^verbatim>\<open>AttributeError\<close> on a numeric column. On a
    column of objects the commas are removed and the amounts converted.
  \<^item> Line 50: the dates are converted.
  \<^item> Lines 53 and 54: with a column \<^verbatim>\<open>Status\<close>, the rows whose status is the \<^verbatim>\<open>str\<close>
    \<^verbatim>\<open>SETTLED\<close> are kept.
  \<^item> Line 56: the kept rows are categorized, inside the \<^verbatim>\<open>try\<close>.
\<close>

definition load_transactions ::
    "(string \<Rightarrow> bool) \<Rightarrow> (string \<Rightarrow> 'a option) \<Rightarrow> (string \<Rightarrow> 'd option) \<Rightarrow> ruleset \<Rightarrow> bool \<Rightarrow>
     (string option, string option, string option, string option) transaction list \<Rightarrow>
     ('d option, string option, 'a option, string option) categorized list option" where
  "load_transactions is_number astype_float to_datetime cats has_Status df =
     (if numeric_column is_number (map Amount df) then None
      else case convert_column (\<lambda>s. astype_float (replace_commas s)) (map Amount df) of
        None \<Rightarrow> None
      | Some amounts \<Rightarrow>
         (case convert_column to_datetime (map Date df) of
            None \<Rightarrow> None
          | Some dates \<Rightarrow>
              let details = str_values is_number (map Details df);
                  df = map (\<lambda>(row, amount, date, text).
                         \<lparr>Date = date, Details = text, Amount = amount,
                          Currency = Currency row, Debit_Credit = Debit_Credit row,
                          Status = Status row\<rparr>) (zip df (zip amounts (zip dates details)));
                  df = (if has_Status then filter (\<lambda>row. Status row = Some ''SETTLED'') df
                        else df)
              in categorize_transactions_checked cats df))"

section \<open>Floating-point sums\<close>

text \<open>
  The amounts are Python floats (\<^verbatim>\<open>astype(float)\<close>, line 47), that is binary64 numbers. A
  finite float is modelled as the rational number it stands for. \<open>round_binary64\<close> is the
  rounding of binary64: to the nearest number with 53 significant bits, a tie going to the
  even one. The range of the exponent is not modelled, so the amounts and sums are taken to
  be neither so large that they overflow nor so small that they are subnormal.
\<close>

definition pow2 :: "int \<Rightarrow> rat" where
  "pow2 k = (if 0 \<le> k then 2 ^ nat k else 1 / 2 ^ nat (- k))"

function ilog2 :: "int \<Rightarrow> int" where
  "ilog2 n = (if n \<le> 1 then 0 else 1 + ilog2 (n div 2))"
  by pat_completeness auto
termination
  by (relation "measure nat") auto

definition round_half_even :: "rat \<Rightarrow> int" where
  "round_half_even x =
     (let f = \<lfloor>x\<rfloor>; d = x - of_int f
      in if d < 1 / 2 then f else if 1 / 2 < d then f + 1 else if even f then f else f + 1)"

text \<open>The exponent \<open>e\<close> of a positive rational \<open>x\<close>: \<open>2 ^ e \<le> x < 2 ^ (e + 1)\<close>.\<close>

definition binary_exponent :: "rat \<Rightarrow> int" where
  "binary_exponent x =
     (let (p, q) = quotient_of x; k = ilog2 p - ilog2 q
      in if pow2 k \<le> x then k else k - 1)"

definition round_binary64 :: "rat \<Rightarrow> rat" where
  "round_binary64 x =
     (if x = 0 then 0
      else let e = binary_exponent \<bar>x\<bar> - 52
           in sgn x * of_int (round_half_even (\<bar>x\<bar> / pow2 e)) * pow2 e)"








section \<open>The aggregates of the dashboard\<close>









section \<open>Example data\<close>

text \<open>Rows of text for the categorizer, and a session.\<close>

definition shop_row :: "(string, string, string, string) transaction" where
  "shop_row = \<lparr>Date = ''01 Jan 2025'', Details = ''Corner Shop'', Amount = ''10.50'',
     Currency = ''AED'', Debit_Credit = ''Debit'', Status = ''SETTLED''\<rparr>"

definition uber_row :: "(string, string, string, string) transaction" where
  "uber_row = \<lparr>Date = ''28 Feb 2025'', Details = ''UBER EATS DUBAI'', Amount = ''1,234.56'',
     Currency = ''AED'', Debit_Credit = ''Debit'', Status = ''REVERSED''\<rparr>"

definition example_session :: session where
  "example_session =
     \<lparr>categories = [(''Uncategorized'', []), (''Transport'', [''uber''])],
      category_file = None\<rparr>"

text \<open>
  Rows of a file. \<open>plain_number\<close> holds of the plain decimal numerals, which \<^verbatim>\<open>read_csv\<close>
  reads as numbers; \<open>example_float\<close> and \<open>example_datetime\<close> are \<^verbatim>\<open>float\<close> and the date format
  \<^verbatim>\<open>%d %b %Y\<close> on the texts that occur below (dates as \<open>yyyymmdd\<close>), and \<open>None\<close> elsewhere.
\<close>

definition plain_number :: "string \<Rightarrow> bool" where
  "plain_number s \<longleftrightarrow>
     list_ex (\<lambda>c. c \<in> set ''0123456789'') s \<and>
     list_all (\<lambda>c. c \<in> set ''0123456789.'') s \<and>
     length (filter (\<lambda>c. c = CHR ''.'') s) \<le> 1"

definition example_float :: "string \<Rightarrow> rat option" where
  "example_float =
     map_of [(''10.50'', 21 / 2), (''1234.56'', round_binary64 (30864 / 25)), (''9000.00'', 9000)]"

definition example_datetime :: "string \<Rightarrow> int option" where
  "example_datetime = map_of [(''01 Jan 2025'', 20250101), (''28 Feb 2025'', 20250228)]"

definition starbucks_row :: "(string option, string option, string option, string option) transaction" where
  "starbucks_row = \<lparr>Date = Some ''01 Jan 2025'', Details = Some ''Starbucks Downtown'',
     Amount = Some ''10.50'', Currency = Some ''AED'', Debit_Credit = Some ''Debit'',
     Status = Some ''SETTLED''\<rparr>"

definition reversed_row :: "(string option, string option, string option, string option) transaction" where
  "reversed_row = \<lparr>Date = Some ''28 Feb 2025'', Details = Some ''UBER EATS DUBAI'',
     Amount = Some ''10.50'', Currency = Some ''AED'', Debit_Credit = Some ''Debit'',
     Status = Some ''REVERSED''\<rparr>"

definition comma_row :: "(string option, string option, string option, string option) transaction" where
  "comma_row = \<lparr>Date = Some ''28 Feb 2025'', Details = Some ''UBER EATS DUBAI'',
     Amount = Some ''1,234.56'', Currency = Some ''AED'', Debit_Credit = Some ''Debit'',
     Status = Some ''SETTLED''\<rparr>"

definition no_amount_row :: "(string option, string option, string option, string option) transaction" where
  "no_amount_row = \<lparr>Date = Some ''01 Jan 2025'', Details = Some ''Corner Shop'',
     Amount = None, Currency = Some ''AED'', Debit_Credit = Some ''Debit'',
     Status = Some ''SETTLED''\<rparr>"

definition no_details_row :: "(string option, string option, string option, string option) transaction" where
  "no_details_row = \<lparr>Date = Some ''01 Jan 2025'', Details = None,
     Amount = Some ''9,000.00'', Currency = Some ''AED'', Debit_Credit = Some ''Credit'',
     Status = Some ''SETTLED''\<rparr>"







section \<open>Properties of the categorizer\<close>

lemma categorize_loop_resolve:
  "categorize_loop cats df =
     map (\<lambda>row. row\<lparr>Category := resolve cats (Details row) (Category row)\<rparr>) df"
proof (induction cats arbitrary: df)
  case Nil
  show ?case by (simp add: map_idI)
next
  case (Cons rule rest)
  obtain category kws where rule: "rule = (category, kws)"
    by (cases rule)
  show ?case
  proof (cases "category = ''Uncategorized'' \<or> kws = []")
    case True
    then have "\<not> rule_matches rule d" for d
      by (auto simp: rule rule_matches_def)
    with True show ?thesis
      by (simp add: rule Cons.IH)
  next
    case False
    then have m: "rule_matches rule d \<longleftrightarrow>
        (\<exists>keyword \<in> set kws. sublist (strip (lower keyword)) (strip (lower d)))" for d
      by (simp add: rule rule_matches_def)
    from False show ?thesis
      by (simp add: rule Cons.IH categorize_rows_def list_ex_iff Let_def m [unfolded rule])
  qed
qed

lemma categorize_transactions_resolve:
  "categorize_transactions cats df =
     map (\<lambda>row. assign_Category (resolve cats (Details row) ''Uncategorized'') row) df"
  by (simp add: categorize_transactions_def categorize_loop_resolve assign_Category_def)

lemma resolve_append:
  "resolve (pre @ post) details current = resolve post details (resolve pre details current)"
  by (induction pre arbitrary: current) simp_all

lemma resolve_no_match:
  "\<forall>rule \<in> set rules. \<not> rule_matches rule details \<Longrightarrow> resolve rules details current = current"
  by (induction rules arbitrary: current) simp_all

lemma resolve_cases:
  "resolve rules details current = current \<and> (\<forall>rule \<in> set rules. \<not> rule_matches rule details)
   \<or> (\<exists>rule \<in> set rules. rule_matches rule details \<and> resolve rules details current = fst rule)"
proof (induction rules arbitrary: current)
  case Nil
  show ?case by simp
next
  case (Cons rule rest)
  show ?case
    using Cons.IH [of "if rule_matches rule details then fst rule else current"]
    by (auto split: if_splits)
qed

section \<open>Matching and resolution\<close>

text \<open>
  C1. Last match wins: when a transaction matches the rule of a category and of no category
  that comes later in the iteration order of the ruleset, it ends in that category, whatever
  the categories before it are and whether they match or not.
\<close>

theorem categorize_last_match_wins:
  assumes "cats = pre @ rule # post"
    and "rule_matches rule (Details (df ! i))"
    and "\<forall>later \<in> set post. \<not> rule_matches later (Details (df ! i))"
    and "i < length df"
  shows "Category (categorize_transactions cats df ! i) = fst rule"
proof -
  have "resolve cats (Details (df ! i)) ''Uncategorized'' = fst rule"
    using assms(2,3) by (simp add: assms(1) resolve_append resolve_no_match)
  with assms(4) show ?thesis
    by (simp add: categorize_transactions_resolve assign_Category_def)
qed

theorem categorize_last_match_wins_witness:
  "rule_matches (''A'', [''shop'']) (Details shop_row) \<and>
   rule_matches (''B'', [''shop'']) (Details shop_row) \<and>
   Category (categorize_transactions [(''A'', [''shop'']), (''B'', [''shop''])] [shop_row] ! 0) = ''B''"
proof -
  have a: "rule_matches (''A'', [''shop'']) (Details shop_row)"
    by code_simp
  have b: "rule_matches (''B'', [''shop'']) (Details ([shop_row] ! 0))"
    by code_simp
  have "Category (categorize_transactions [(''A'', [''shop'']), (''B'', [''shop''])] [shop_row] ! 0) = ''B''"
    using categorize_last_match_wins [of "[(''A'', [''shop'']), (''B'', [''shop''])]" "[(''A'', [''shop''])]"
        "(''B'', [''shop''])" "[]" "[shop_row]" 0, OF _ b]
    by simp
  with a b show ?thesis by simp
qed

text \<open>
  C2. Categorization is idempotent: categorizing the categorized frame again with the same
  ruleset returns the same frame, row by row, and so the same categories.
\<close>

theorem categorize_idempotent:
  "categorize_transactions cats (categorize_transactions cats df) =
     categorize_transactions cats df"
  by (simp add: categorize_transactions_resolve assign_Category_def comp_def)

theorem categorize_idempotent_witness:
  "categorize_transactions [(''A'', [''shop'']), (''B'', [''shop''])]
     (categorize_transactions [(''A'', [''shop'']), (''B'', [''shop''])] [shop_row, uber_row]) =
   categorize_transactions [(''A'', [''shop'']), (''B'', [''shop''])] [shop_row, uber_row]"
  by (rule categorize_idempotent)

lemma rule_matches_in_set:
  "rule_matches rule d \<Longrightarrow> rule \<in> set cats \<Longrightarrow> distinct (map fst cats)
     \<Longrightarrow> (fst rule, kws) \<in> set cats \<Longrightarrow> kws \<noteq> []"
  by (metis eq_key_imp_eq_value prod.collapse rule_matches_def)

lemma resolve_last_match:
  assumes "cats = pre @ rule # post"
    and "rule_matches rule details"
    and "\<forall>later \<in> set post. \<not> rule_matches later details"
  shows "resolve cats details current = fst rule"
  using assms(2,3) by (simp add: assms(1) resolve_append resolve_no_match)

lemma resolve_some_match:
  assumes "\<exists>rule \<in> set cats. rule_matches rule details"
  shows "\<exists>pre rule post. cats = pre @ rule # post \<and> rule_matches rule details \<and>
     (\<forall>later \<in> set post. \<not> rule_matches later details) \<and>
     resolve cats details current = fst rule"
proof -
  from split_list_last_prop [OF assms]
  obtain pre rule post where s: "cats = pre @ rule # post" "rule_matches rule details"
    "\<forall>later \<in> set post. \<not> rule_matches later details"
    by blast
  from resolve_last_match [OF s] s show ?thesis
    by blast
qed

text \<open>
  C3 (amended). The categorizer assigns a category \<open>C\<close> other than \<^verbatim>\<open>Uncategorized\<close> to a
  transaction if and only if \<open>C\<close> is in the ruleset with a non-empty keyword list, some keyword
  of \<open>C\<close>, lower-cased and trimmed, is a substring of the lower-cased, trimmed details, and no
  category later in the iteration order matches the transaction in the same way. A
  transaction keeps \<^verbatim>\<open>Uncategorized\<close> if and only if no category matches it. The keyword
  \<^verbatim>\<open>uber\<close> matches the details \<^verbatim>\<open>UBER EATS DUBAI\<close>, and a category with an empty keyword list
  receives no transaction.
\<close>

theorem categorize_assigns_last_match:
  assumes "i < length df"
  shows
    "(Category (categorize_transactions cats df ! i) = C \<and> C \<noteq> ''Uncategorized'' \<longleftrightarrow>
       (\<exists>pre keywords post. cats = pre @ (C, keywords) # post \<and>
          rule_matches (C, keywords) (Details (df ! i)) \<and>
          (\<forall>later \<in> set post. \<not> rule_matches later (Details (df ! i))))) \<and>
     (Category (categorize_transactions cats df ! i) = ''Uncategorized'' \<longleftrightarrow>
       (\<forall>rule \<in> set cats. \<not> rule_matches rule (Details (df ! i)))) \<and>
     (''uber'' \<in> set keywords \<and> C \<noteq> ''Uncategorized'' \<and> Details (df ! i) = ''UBER EATS DUBAI''
        \<longrightarrow> rule_matches (C, keywords) (Details (df ! i))) \<and>
     (distinct (map fst cats) \<and> (C, []) \<in> set cats \<and> C \<noteq> ''Uncategorized''
        \<longrightarrow> Category (categorize_transactions cats df ! i) \<noteq> C)"
proof -
  let ?d = "Details (df ! i)"
  let ?out = "Category (categorize_transactions cats df ! i)"
  have out: "?out = resolve cats ?d ''Uncategorized''"
    using assms by (simp add: categorize_transactions_resolve assign_Category_def)
  have cases: "?out = ''Uncategorized'' \<and> (\<forall>rule \<in> set cats. \<not> rule_matches rule ?d)
      \<or> (\<exists>rule \<in> set cats. rule_matches rule ?d \<and> ?out = fst rule)"
    unfolding out by (rule resolve_cases)
  have default: "?out = ''Uncategorized'' \<longleftrightarrow> (\<forall>rule \<in> set cats. \<not> rule_matches rule ?d)"
    using cases by (auto simp: rule_matches_def)
  have final: "?out = C \<and> C \<noteq> ''Uncategorized'' \<longleftrightarrow>
       (\<exists>pre keywords post. cats = pre @ (C, keywords) # post \<and>
          rule_matches (C, keywords) ?d \<and> (\<forall>later \<in> set post. \<not> rule_matches later ?d))"
  proof
    assume a: "?out = C \<and> C \<noteq> ''Uncategorized''"
    with default have "\<exists>rule \<in> set cats. rule_matches rule ?d"
      by blast
    from resolve_some_match [OF this, of "''Uncategorized''"]
    obtain pre rule post where s: "cats = pre @ rule # post" "rule_matches rule ?d"
      "\<forall>later \<in> set post. \<not> rule_matches later ?d" "?out = fst rule"
      unfolding out by blast
    from s(4) a have "rule = (C, snd rule)"
      by (cases rule) simp
    with s show "\<exists>pre keywords post. cats = pre @ (C, keywords) # post \<and>
          rule_matches (C, keywords) ?d \<and> (\<forall>later \<in> set post. \<not> rule_matches later ?d)"
      by metis
  next
    assume "\<exists>pre keywords post. cats = pre @ (C, keywords) # post \<and>
          rule_matches (C, keywords) ?d \<and> (\<forall>later \<in> set post. \<not> rule_matches later ?d)"
    then obtain pre kws post where s: "cats = pre @ (C, kws) # post"
      "rule_matches (C, kws) ?d" "\<forall>later \<in> set post. \<not> rule_matches later ?d"
      by blast
    from resolve_last_match [OF s] have "?out = C"
      by (simp add: out)
    moreover from s(2) have "C \<noteq> ''Uncategorized''"
      by (simp add: rule_matches_def)
    ultimately show "?out = C \<and> C \<noteq> ''Uncategorized''"
      by simp
  qed
  have u: "sublist (strip (lower ''uber'')) (strip (lower ''UBER EATS DUBAI''))"
    by code_simp
  have uber: "''uber'' \<in> set keywords \<and> C \<noteq> ''Uncategorized'' \<and> ?d = ''UBER EATS DUBAI''
        \<longrightarrow> rule_matches (C, keywords) ?d"
    using u by (auto simp: rule_matches_def)
  have empty: "distinct (map fst cats) \<and> (C, []) \<in> set cats \<and> C \<noteq> ''Uncategorized''
        \<longrightarrow> ?out \<noteq> C"
  proof (intro impI notI, elim conjE)
    assume d: "distinct (map fst cats)" and e: "(C, []) \<in> set cats"
      and n: "C \<noteq> ''Uncategorized''" and o: "?out = C"
    from cases o n obtain rule where r: "rule \<in> set cats" "fst rule = C" "rule_matches rule ?d"
      by metis
    from rule_matches_in_set [OF r(3) r(1) d, of "[]"] e r(2) show False
      by simp
  qed
  from final default uber empty show ?thesis
    by (intro conjI)
qed

theorem categorize_assigns_last_match_witness:
  "Category (categorize_transactions [(''A'', [''shop'']), (''Transport'', [''uber''])] [uber_row] ! 0)
      = ''Transport'' \<and>
   rule_matches (''Transport'', [''uber'']) ''UBER EATS DUBAI'' \<and>
   Category (categorize_transactions [(''A'', [''shop'']), (''Empty'', [])] [uber_row] ! 0)
      = ''Uncategorized''"
proof -
  have l: "0 < length [uber_row]"
    by simp
  have d: "Details uber_row = ''UBER EATS DUBAI''"
    by (simp add: uber_row_def)
  have m: "rule_matches (''Transport'', [''uber'']) ''UBER EATS DUBAI''"
    by code_simp
  have n: "\<not> rule_matches (''A'', [''shop'']) ''UBER EATS DUBAI''"
    "\<not> rule_matches (''Empty'', []) ''UBER EATS DUBAI''"
    by code_simp+
  have e: "\<exists>pre keywords post.
      [(''A'', [''shop'']), (''Transport'', [''uber''])] = pre @ (''Transport'', keywords) # post \<and>
      rule_matches (''Transport'', keywords) ''UBER EATS DUBAI'' \<and>
      (\<forall>later \<in> set post. \<not> rule_matches later ''UBER EATS DUBAI'')"
    using m by (intro exI [of _ "[(''A'', [''shop''])]"] exI [of _ "[''uber'']"] exI [of _ "[]"]) simp
  from categorize_assigns_last_match [OF l, of "[(''A'', [''shop'']), (''Transport'', [''uber''])]"
      "''Transport''"] e
  have 1: "Category (categorize_transactions [(''A'', [''shop'']), (''Transport'', [''uber''])]
      [uber_row] ! 0) = ''Transport''"
    by (simp add: d)
  from categorize_assigns_last_match [OF l, of "[(''A'', [''shop'']), (''Empty'', [])]"] n
  have 2: "Category (categorize_transactions [(''A'', [''shop'']), (''Empty'', [])] [uber_row] ! 0)
      = ''Uncategorized''"
    by (simp add: d)
  from 1 2 m show ?thesis
    by simp
qed

text \<open>
  Without the condition on the later categories the equivalence fails: \<open>A\<close> is not
  \<^verbatim>\<open>Uncategorized\<close>, has the keyword \<^verbatim>\<open>shop\<close>, and the keyword occurs in the details, yet the
  transaction is assigned \<open>B\<close>, which comes later and matches too.
\<close>

theorem categorize_assigns_iff_match_counterexample:
  "''A'' \<noteq> ''Uncategorized'' \<and> [''shop''] \<noteq> [] \<and>
   sublist (strip (lower ''shop'')) (strip (lower (Details shop_row))) \<and>
   Category (categorize_transactions [(''A'', [''shop'']), (''B'', [''shop''])] [shop_row] ! 0)
     = ''B''"
  by code_simp





section \<open>Properties of learning\<close>

lemma map_of_update_other:
  "c \<noteq> category \<Longrightarrow> map_of (AList.update category v al) c = map_of al c"
  by (simp add: update_conv')

lemma keys_update_present:
  "map_of al category = Some v' \<Longrightarrow> map fst (AList.update category v al) = map fst al"
  by (auto simp: update_keys dest: map_of_SomeD intro: rev_image_eqI)

text \<open>
  C6. For an existing category, \<open>add_keyword_to_category\<close> returns a flag, never an
  exception. The flag is true exactly when the trimmed keyword is non-empty and not in the
  stored list, and exactly when the dict has changed. When it is true, the trimmed keyword has
  been appended to the list of the category, every other category and the order of the keys
  are as before, and the file holds the new dict; when it is false, the state is untouched.
  A second call with the same arguments returns false and changes nothing.
\<close>

theorem learn_appends_iff_new:
  assumes "map_of (categories s) category = Some stored"
  shows "\<exists>changed s'.
     add_keyword_to_category category keyword s = (Inr changed, s') \<and>
     (changed \<longleftrightarrow> strip keyword \<noteq> [] \<and> strip keyword \<notin> set stored) \<and>
     (changed \<longleftrightarrow> categories s' \<noteq> categories s) \<and>
     (changed \<longrightarrow>
        map_of (categories s') category = Some (stored @ [strip keyword]) \<and>
        (\<forall>c. c \<noteq> category \<longrightarrow> map_of (categories s') c = map_of (categories s) c) \<and>
        map fst (categories s') = map fst (categories s) \<and>
        category_file s' = Some (categories s')) \<and>
     (\<not> changed \<longrightarrow> s' = s) \<and>
     add_keyword_to_category category keyword s' = (Inr False, s')"
proof (cases "strip keyword \<noteq> [] \<and> strip keyword \<notin> set stored")
  case True
  let ?cats = "AList.update category (stored @ [strip keyword]) (categories s)"
  let ?s = "save_categories (s\<lparr>categories := ?cats\<rparr>)"
  have run: "add_keyword_to_category category keyword s = (Inr True, ?s)"
    using True assms by (simp add: add_keyword_to_category_def Let_def)
  have cats: "categories ?s = ?cats" and saved: "category_file ?s = Some ?cats"
    by (simp_all add: save_categories_def)
  have look: "map_of ?cats category = Some (stored @ [strip keyword])"
    by (simp add: update_conv')
  have differ: "?cats \<noteq> categories s"
    using look assms by auto
  have again: "add_keyword_to_category category keyword ?s = (Inr False, ?s)"
    using True by (simp add: add_keyword_to_category_def Let_def cats look)
  show ?thesis
    by (rule exI [of _ True], rule exI [of _ ?s])
      (use True run look differ again in
        \<open>simp add: cats saved map_of_update_other keys_update_present [OF assms]\<close>)
next
  case False
  then have run: "add_keyword_to_category category keyword s = (Inr False, s)"
    using assms by (auto simp: add_keyword_to_category_def Let_def)
  show ?thesis
    by (rule exI [of _ False], rule exI [of _ s]) (use False run in simp)
qed

theorem learn_appends_iff_new_witness:
  "add_keyword_to_category ''Transport'' '' Careem Ride  '' example_session =
     (Inr True,
      \<lparr>categories = [(''Uncategorized'', []), (''Transport'', [''uber'', ''Careem Ride''])],
       category_file = Some [(''Uncategorized'', []), (''Transport'', [''uber'', ''Careem Ride''])]\<rparr>) \<and>
   add_keyword_to_category ''Transport'' '' Careem Ride  ''
     (snd (add_keyword_to_category ''Transport'' '' Careem Ride  '' example_session)) =
     (Inr False, snd (add_keyword_to_category ''Transport'' '' Careem Ride  '' example_session))"
proof -
  have h: "map_of (categories example_session) ''Transport'' = Some [''uber'']"
    by (simp add: example_session_def)
  have r: "add_keyword_to_category ''Transport'' '' Careem Ride  '' example_session =
     (Inr True,
      \<lparr>categories = [(''Uncategorized'', []), (''Transport'', [''uber'', ''Careem Ride''])],
       category_file = Some [(''Uncategorized'', []), (''Transport'', [''uber'', ''Careem Ride''])]\<rparr>)"
    by code_simp
  from learn_appends_iff_new [OF h, of "'' Careem Ride  ''"] r show ?thesis
    by auto
qed

text \<open>
  C4 (amended). Duplicate detection is case-sensitive, the new keyword being trimmed first:
  for every existing category and every keyword, when the keyword list of the category
  already holds the trimmed keyword exactly, learning the keyword does not add it again: the
  call returns false and the list, the ruleset and the file are unchanged.
\<close>

theorem learn_duplicate_exact:
  assumes "map_of (categories s) category = Some stored"
    and "strip keyword \<in> set stored"
  shows "add_keyword_to_category category keyword s = (Inr False, s)"
  using assms by (simp add: add_keyword_to_category_def Let_def)

theorem learn_duplicate_exact_witness:
  "strip '' uber  '' \<in> set [''uber''] \<and>
   add_keyword_to_category ''Transport'' '' uber  '' example_session = (Inr False, example_session)"
proof -
  have h: "map_of (categories example_session) ''Transport'' = Some [''uber'']"
    by (simp add: example_session_def)
  have k: "strip '' uber  '' \<in> set [''uber'']"
    by code_simp
  from learn_duplicate_exact [OF h k] k show ?thesis
    by simp
qed

text \<open>
  The comparison is not case-insensitive: \<^verbatim>\<open>UBER\<close> is appended to a list that holds
  \<^verbatim>\<open>uber\<close>, although the two are equal up to case and surrounding whitespace.
\<close>

theorem learn_duplicate_case_counterexample:
  "map_of (categories example_session) ''Transport'' = Some [''uber''] \<and>
   lower (strip ''UBER '') = lower (strip ''uber'') \<and>
   add_keyword_to_category ''Transport'' ''UBER '' example_session =
     (Inr True,
      \<lparr>categories = [(''Uncategorized'', []), (''Transport'', [''uber'', ''UBER''])],
       category_file = Some [(''Uncategorized'', []), (''Transport'', [''uber'', ''UBER''])]\<rparr>)"
  by code_simp

text \<open>
  C7 (amended). When the category is not a key of the dict, no call changes the state: a
  keyword that is non-empty after trimming raises \<^verbatim>\<open>KeyError\<close>, and a keyword that trims to
  the empty string returns false without the dict being indexed.
\<close>

theorem learn_unknown_category:
  assumes "category \<notin> fst ` set (categories s)"
  shows "add_keyword_to_category category keyword s =
     (if strip keyword = [] then Inr False else Inl KeyError, s)"
proof -
  have "map_of (categories s) category = None"
    using assms by (simp add: map_of_eq_None_iff)
  then show ?thesis
    by (simp add: add_keyword_to_category_def Let_def)
qed

theorem learn_unknown_category_witness:
  "''Travel'' \<notin> fst ` set (categories example_session) \<and>
   add_keyword_to_category ''Travel'' ''Emirates'' example_session = (Inl KeyError, example_session)"
proof -
  have h: "''Travel'' \<notin> fst ` set (categories example_session)"
    by (simp add: example_session_def)
  have k: "strip ''Emirates'' \<noteq> []"
    by code_simp
  from learn_unknown_category [OF h, of "''Emirates''"] h k show ?thesis
    by simp
qed

text \<open>
  A keyword of whitespace only does not raise for a missing category: the call returns
  false.
\<close>

theorem learn_unknown_category_counterexample:
  "''Travel'' \<notin> fst ` set (categories example_session) \<and>
   add_keyword_to_category ''Travel'' ''   '' example_session = (Inr False, example_session)"
  by code_simp

section \<open>Properties of loading\<close>

lemma those_map_Some_all: "those (map (\<lambda>x. Some (f x)) xs) = Some (map f xs)"
  by (induction xs) simp_all

lemma categorize_rows_checked_text:
  "categorize_rows_checked category lowered (map text_details df) =
     Some (map text_details (categorize_rows category lowered df))"
proof -
  have e: "(\<lambda>row. case Details row of
          None \<Rightarrow> None
        | Some text \<Rightarrow>
            let details = strip (lower text)
            in Some (if list_ex (\<lambda>keyword. sublist keyword details) lowered
                     then row\<lparr>Category := category\<rparr> else row)) \<circ> text_details =
      (\<lambda>row. Some (text_details
        (let details = strip (lower (Details row))
         in if list_ex (\<lambda>keyword. sublist keyword details) lowered
            then row\<lparr>Category := category\<rparr> else row)))"
    by (rule ext) (simp add: text_details_def Let_def)
  show ?thesis
    unfolding categorize_rows_checked_def categorize_rows_def map_map e
    by (simp add: those_map_Some_all comp_def)
qed

lemma categorize_loop_checked_text:
  "categorize_loop_checked cats (map text_details df) =
     Some (map text_details (categorize_loop cats df))"
  by (induction cats df rule: categorize_loop.induct)
    (simp_all add: categorize_rows_checked_text)

lemma categorize_transactions_checked_text:
  "categorize_transactions_checked cats (map text_row df) =
     Some (map text_details (categorize_transactions cats df))"
proof -
  have "map (assign_Category ''Uncategorized'') (map text_row df) =
      map text_details (map (assign_Category ''Uncategorized'') df)"
    by (simp add: assign_Category_def text_details_def text_row_def)
  then show ?thesis
    by (simp only: categorize_transactions_checked_def categorize_transactions_def
        categorize_loop_checked_text)
qed

lemma load_transactions_numeric_amounts:
  "numeric_column is_number (map Amount df) \<Longrightarrow>
     load_transactions is_number astype_float to_datetime cats has_Status df = None"
  by (simp add: load_transactions_def)

text \<open>
  C8. With a column \<^verbatim>\<open>Status\<close> the rows whose status is \<^verbatim>\<open>SETTLED\<close> are to be retained, in
  the order of the file. The code does not retain them when the amounts of the file are all
  plain numbers. The file of one row
  \<^verbatim>\<open>01 Jan 2025,Starbucks Downtown,10.50,AED,Debit,SETTLED\<close> with the ruleset
  \<^verbatim>\<open>{"Food": ["starbucks"]}\<close> has a settled row whose amount and date convert, and
  \<open>load_transactions\<close> returns \<^verbatim>\<open>None\<close>: the column \<^verbatim>\<open>Amount\<close> is numeric and \<^verbatim>\<open>.str\<close> raises at
  line 47. A file of two settled rows, one with an empty \<^verbatim>\<open>Details\<close> cell, is rejected as
  well: \<^verbatim>\<open>.lower()\<close> raises at line 34 inside the \<^verbatim>\<open>try\<close>.
\<close>

theorem load_rejects_settled_rows:
  "load_transactions plain_number example_float example_datetime [(''Food'', [''starbucks''])] True
     [starbucks_row] = None \<and>
   Status starbucks_row = Some ''SETTLED'' \<and>
   example_float (replace_commas ''10.50'') = Some (21 / 2) \<and>
   example_datetime ''01 Jan 2025'' = Some 20250101 \<and>
   load_transactions plain_number example_float example_datetime [(''Food'', [''starbucks''])] True
     [comma_row, no_details_row] = None \<and>
   Status comma_row = Some ''SETTLED'' \<and> Status no_details_row = Some ''SETTLED''"
  by code_simp

text \<open>
  C9. A file with a malformed row is to be rejected as a whole, and a file whose rows are
  all filtered out is to give the empty frame. The code departs from both. A file whose only
  row is
  \<^verbatim>\<open>28 Feb 2025,UBER EATS DUBAI,10.50,AED,Debit,REVERSED\<close> has all its rows filtered out, and
  \<open>load_transactions\<close> returns \<^verbatim>\<open>None\<close>, not the empty frame: line 47 raises before the filter
  is reached. A file with an empty \<^verbatim>\<open>Amount\<close> cell is not rejected: the row is kept, its amount
  \<^verbatim>\<open>NaN\<close>. A file without rows does give the empty frame.
\<close>

theorem load_empty_and_malformed:
  "load_transactions plain_number example_float example_datetime [(''Food'', [''starbucks''])] True
     [reversed_row] = None \<and>
   Status reversed_row = Some ''REVERSED'' \<and>
   load_transactions plain_number example_float example_datetime [(''Food'', [''starbucks''])] True
     [no_amount_row, comma_row] =
     Some [\<lparr>Date = Some 20250101, Details = Some ''Corner Shop'', Amount = None,
             Currency = Some ''AED'', Debit_Credit = Some ''Debit'', Status = Some ''SETTLED'',
             Category = ''Uncategorized''\<rparr>,
           \<lparr>Date = Some 20250228, Details = Some ''UBER EATS DUBAI'',
             Amount = Some (round_binary64 (30864 / 25)),
             Currency = Some ''AED'', Debit_Credit = Some ''Debit'', Status = Some ''SETTLED'',
             Category = ''Uncategorized''\<rparr>] \<and>
   Amount no_amount_row = None \<and>
   load_transactions plain_number example_float example_datetime [(''Food'', [''starbucks''])] True
     [] = Some []"
  by code_simp

section \<open>Properties of the aggregates\<close>











end
